theory Spec2Isabelle
  imports Main
begin

section \<open>Python values used by dz1.py\<close>

text \<open>
  A Python \<open>str\<close> is a sequence of code points, and \<open>len\<close> counts code points.
  It is modelled as a HOL \<open>string\<close>, the character with code \<open>n\<close> standing for the
  code point \<open>n\<close>: the model covers the strings over the code points 0 to 255.
  The library predicates on characters are written out for that range from the Unicode
  character database, as CPython reads it.

  Exceptions are values. The classes are Python's; the text is the message the source
  passes, or a short form of the library's own message, which the program never reads.
\<close>

datatype error =
    ValueError string
  | TypeError string
  | IndexError string
  | OverflowError string

text \<open>
  \<open>str.isdigit\<close>: true for a non-empty string whose characters all have the property
  Numeric\_Type=Digit or Numeric\_Type=Decimal. Below 256 these are the ten decimal digits
  (48 to 57) and the superscript digits two, three and one (178, 179, 185).
\<close>

definition isdigit_char :: "char \<Rightarrow> bool" where
  "isdigit_char c =
     (let n = (of_char c :: nat)
      in (48 \<le> n \<and> n \<le> 57) \<or> n = 178 \<or> n = 179 \<or> n = 185)"

definition isdigit :: "string \<Rightarrow> bool" where
  "isdigit s = (s \<noteq> [] \<and> list_all isdigit_char s)"

text \<open>
  \<open>str.isspace\<close> on one character, which \<open>str.split()\<close> and \<open>str.strip()\<close> use:
  below 256 the whitespace code points are 9 to 13, 28 to 32, 133 and 160.
\<close>

definition isspace_char :: "char \<Rightarrow> bool" where
  "isspace_char c =
     (let n = (of_char c :: nat)
      in (9 \<le> n \<and> n \<le> 13) \<or> (28 \<le> n \<and> n \<le> 32) \<or> n = 133 \<or> n = 160)"

text \<open>
  \<open>str.lower\<close>: below 256 the upper-case letters are 65 to 90, 192 to 214 and 216 to 222,
  and the lower-case partner of each is 32 further on.
\<close>

definition lower_char :: "char \<Rightarrow> char" where
  "lower_char c =
     (let n = (of_char c :: nat)
      in if (65 \<le> n \<and> n \<le> 90) \<or> (192 \<le> n \<and> n \<le> 214) \<or> (216 \<le> n \<and> n \<le> 222)
         then char_of (n + 32) else c)"

definition lower :: "string \<Rightarrow> string" where
  "lower s = map lower_char s"

definition strip :: "string \<Rightarrow> string" where
  "strip s = rev (dropWhile isspace_char (rev (dropWhile isspace_char s)))"

text \<open>\<open>s.split(' ', 1)\<close>: cut at the first space, if there is one.\<close>

definition split_space1 :: "string \<Rightarrow> string list" where
  "split_space1 s =
     (if CHR '' '' \<in> set s
      then [takeWhile (\<lambda>c. c \<noteq> CHR '' '') s, tl (dropWhile (\<lambda>c. c \<noteq> CHR '' '') s)]
      else [s])"

text \<open>
  \<open>s.split()\<close>: the maximal runs of characters that are not whitespace.
  \<open>cur\<close> is the run being read.
\<close>

fun split_runs :: "string \<Rightarrow> string \<Rightarrow> string list" where
  "split_runs cur [] = (if cur = [] then [] else [cur])"
| "split_runs cur (c # cs) =
     (if isspace_char c
      then (if cur = [] then split_runs [] cs else cur # split_runs [] cs)
      else split_runs (cur @ [c]) cs)"

definition split_ws :: "string \<Rightarrow> string list" where
  "split_ws s = split_runs [] s"

text \<open>\<open>sep.join(xs)\<close>.\<close>

fun join :: "string \<Rightarrow> string list \<Rightarrow> string" where
  "join sep [] = []"
| "join sep [x] = x"
| "join sep (x # y # ys) = x @ sep @ join sep (y # ys)"

text \<open>
  \<open>int(s)\<close> for the groups the date pattern below matches: decimal digits, after
  blanks are stripped.
\<close>

definition digit_value :: "char \<Rightarrow> nat" where
  "digit_value c = of_char c - 48"

definition py_int :: "string \<Rightarrow> nat" where
  "py_int s = foldl (\<lambda>a c. 10 * a + digit_value c) 0 (strip s)"

text \<open>A number in decimal, filled with zeros to a width: the \<open>%04d\<close> and \<open>%02d\<close> of date.isoformat.\<close>

definition digit_char :: "nat \<Rightarrow> char" where
  "digit_char n = char_of (48 + n mod 10)"

fun zero_padded :: "nat \<Rightarrow> nat \<Rightarrow> string" where
  "zero_padded 0 n = (if n = 0 then [] else zero_padded 0 (n div 10) @ [digit_char n])"
| "zero_padded (Suc w) n = zero_padded w (n div 10) @ [digit_char n]"

section \<open>Calendar dates\<close>

text \<open>
  \<open>datetime.date\<close>, as the program uses it: a year from 1 to 9999, a month and a day of
  the proleptic Gregorian calendar. The day count follows the library:
  \<^verbatim>\<open>
  def _is_leap(year):
      return year % 4 == 0 and (year % 100 != 0 or year % 400 == 0)
  def _days_before_year(year):
      y = year - 1
      return y*365 + y//4 - y//100 + y//400
  def _ymd2ord(year, month, day):
      return _days_before_year(year) + _days_before_month(year, month) + day
  def weekday(self):
      return (self.toordinal() + 6) % 7
  \<close>
\<close>

record date =
  year :: nat
  month :: nat
  day :: nat

definition is_leap :: "nat \<Rightarrow> bool" where
  "is_leap y = (y mod 4 = 0 \<and> (y mod 100 \<noteq> 0 \<or> y mod 400 = 0))"

definition days_in_month :: "nat \<Rightarrow> nat \<Rightarrow> nat" where
  "days_in_month y m =
     (if m = 2 then (if is_leap y then 29 else 28)
      else if m = 4 \<or> m = 6 \<or> m = 9 \<or> m = 11 then 30 else 31)"

definition days_before_year :: "nat \<Rightarrow> nat" where
  "days_before_year y = (y - 1) * 365 + (y - 1) div 4 - (y - 1) div 100 + (y - 1) div 400"

definition days_before_month :: "nat \<Rightarrow> nat \<Rightarrow> nat" where
  "days_before_month y m =
     [0, 31, 59, 90, 120, 151, 181, 212, 243, 273, 304, 334] ! (m - 1)
       + (if m > 2 \<and> is_leap y then 1 else 0)"

definition toordinal :: "date \<Rightarrow> nat" where
  "toordinal d = days_before_year (year d) + days_before_month (year d) (month d) + day d"

definition weekday :: "date \<Rightarrow> nat" where
  "weekday d = (toordinal d + 6) mod 7"

definition valid_date :: "date \<Rightarrow> bool" where
  "valid_date d =
     (1 \<le> year d \<and> year d \<le> 9999 \<and> 1 \<le> month d \<and> month d \<le> 12 \<and>
      1 \<le> day d \<and> day d \<le> days_in_month (year d) (month d))"

text \<open>The constructor \<open>date(year, month, day)\<close> checks its fields.\<close>

definition new_date :: "nat \<Rightarrow> nat \<Rightarrow> nat \<Rightarrow> error + date" where
  "new_date y m d =
     (if \<not> (1 \<le> y \<and> y \<le> 9999) then Inl (ValueError ''year is out of range'')
      else if \<not> (1 \<le> m \<and> m \<le> 12) then Inl (ValueError ''month must be in 1..12'')
      else if \<not> (1 \<le> d \<and> d \<le> days_in_month y m)
        then Inl (ValueError ''day is out of range for month'')
      else Inr \<lparr>year = y, month = m, day = d\<rparr>)"

text \<open>\<open>d.replace(year=y)\<close> builds a new date from the changed fields.\<close>

definition replace_year :: "date \<Rightarrow> nat \<Rightarrow> error + date" where
  "replace_year d y = new_date y (month d) (day d)"

text \<open>\<open>a < b\<close> compares year, month and day in this order.\<close>

definition date_less :: "date \<Rightarrow> date \<Rightarrow> bool" where
  "date_less a b =
     (year a < year b \<or> (year a = year b \<and>
       (month a < month b \<or> (month a = month b \<and> day a < day b))))"

text \<open>\<open>(a - b).days\<close>.\<close>

definition days_between :: "date \<Rightarrow> date \<Rightarrow> int" where
  "days_between a b = int (toordinal a) - int (toordinal b)"

text \<open>
  \<open>d + timedelta(days=n)\<close> for \<open>n \<ge> 0\<close> is the date \<open>n\<close> days after \<open>d\<close>, and an
  OverflowError when that is after 9999-12-31, the day of ordinal 3652059.
  The day after a date is computed on the fields.
\<close>

definition next_day :: "date \<Rightarrow> date" where
  "next_day d =
     (if day d < days_in_month (year d) (month d) then d\<lparr>day := day d + 1\<rparr>
      else if month d < 12 then d\<lparr>month := month d + 1, day := 1\<rparr>
      else \<lparr>year = year d + 1, month = 1, day = 1\<rparr>)"

definition MAXORDINAL :: nat where
  "MAXORDINAL = 3652059"

definition add_days :: "date \<Rightarrow> nat \<Rightarrow> error + date" where
  "add_days d n =
     (if toordinal d + n > MAXORDINAL then Inl (OverflowError ''date value out of range'')
      else Inr ((next_day ^^ n) d))"

section \<open>Parsing a date\<close>

text \<open>
  \<open>datetime.strptime(s, "%d.%m.%Y")\<close>. The library turns the format into the regular
  expression
  \<^verbatim>\<open>
  (?P<d>3[0-1]|[1-2]\d|0[1-9]|[1-9]| [1-9])\.(?P<m>1[0-2]|0[1-9]|[1-9])\.(?P<Y>\d\d\d\d)
  \<close>
  matches it at the start of \<open>s\<close>, raises ValueError when there is no match or when
  text is left after the match, and builds the date from \<open>int\<close> of the three groups,
  which raises ValueError for a date that does not exist.

  Each group is a function from the text to the ways the group can match at its start,
  in the order the backtracking matcher tries them: the text matched and the rest.
  \<open>\d\<close> matches a decimal digit; below 256 these are 48 to 57.
\<close>

definition in_range :: "char \<Rightarrow> char \<Rightarrow> char \<Rightarrow> bool" where
  "in_range lo hi c = ((of_char lo :: nat) \<le> of_char c \<and> (of_char c :: nat) \<le> of_char hi)"

definition re_digit :: "char \<Rightarrow> bool" where
  "re_digit c = in_range (CHR ''0'') (CHR ''9'') c"

fun match1 :: "(char \<Rightarrow> bool) \<Rightarrow> string \<Rightarrow> (string \<times> string) list" where
  "match1 p (a # r) = (if p a then [([a], r)] else [])"
| "match1 p [] = []"

fun match2 :: "(char \<Rightarrow> bool) \<Rightarrow> (char \<Rightarrow> bool) \<Rightarrow> string \<Rightarrow> (string \<times> string) list" where
  "match2 p q (a # b # r) = (if p a \<and> q b then [([a, b], r)] else [])"
| "match2 p q r = []"

definition re_d :: "string \<Rightarrow> (string \<times> string) list" where
  "re_d s =
     match2 (\<lambda>c. c = CHR ''3'') (in_range (CHR ''0'') (CHR ''1'')) s @
     match2 (in_range (CHR ''1'') (CHR ''2'')) re_digit s @
     match2 (\<lambda>c. c = CHR ''0'') (in_range (CHR ''1'') (CHR ''9'')) s @
     match1 (in_range (CHR ''1'') (CHR ''9'')) s @
     match2 (\<lambda>c. c = CHR '' '') (in_range (CHR ''1'') (CHR ''9'')) s"

definition re_m :: "string \<Rightarrow> (string \<times> string) list" where
  "re_m s =
     match2 (\<lambda>c. c = CHR ''1'') (in_range (CHR ''0'') (CHR ''2'')) s @
     match2 (\<lambda>c. c = CHR ''0'') (in_range (CHR ''1'') (CHR ''9'')) s @
     match1 (in_range (CHR ''1'') (CHR ''9'')) s"

fun re_Y :: "string \<Rightarrow> (string \<times> string) list" where
  "re_Y (a # b # c # d # r) =
     (if re_digit a \<and> re_digit b \<and> re_digit c \<and> re_digit d then [([a, b, c, d], r)] else [])"
| "re_Y r = []"

fun re_dot :: "string \<Rightarrow> string list" where
  "re_dot (a # r) = (if a = CHR ''.'' then [r] else [])"
| "re_dot [] = []"

text \<open>All matches of the whole expression, first the one the matcher returns.\<close>

definition re_matches :: "string \<Rightarrow> (string \<times> string \<times> string \<times> string) list" where
  "re_matches s =
     concat (map (\<lambda>(d, r1).
       concat (map (\<lambda>r2.
         concat (map (\<lambda>(m, r3).
           concat (map (\<lambda>r4.
             map (\<lambda>(y, r5). (d, m, y, r5)) (re_Y r4))
           (re_dot r3)))
         (re_m r2)))
       (re_dot r1)))
     (re_d s))"

definition strptime :: "string \<Rightarrow> error + date" where
  "strptime s =
     (case re_matches s of
        [] \<Rightarrow> Inl (ValueError ''time data does not match format'')
      | (d, m, y, rest) # _ \<Rightarrow>
          if rest \<noteq> [] then Inl (ValueError ''unconverted data remains'')
          else new_date (py_int y) (py_int m) (py_int d))"

section \<open>Fields\<close>

text \<open>
  \<^verbatim>\<open>
  class Phone(Field):
      def __init__(self, value):
          if not self.validate_phone(value):
              raise ValueError("Invalid phone number")
          super().__init__(value)

      @staticmethod
      def validate_phone(phone):
          return len(phone) == 10 and phone.isdigit()
  \<close>
  A field object holds one attribute, \<open>value\<close>; it is modelled by that value.
\<close>

definition validate_phone :: "string \<Rightarrow> bool" where
  "validate_phone phone = (length phone = 10 \<and> isdigit phone)"

definition Phone :: "string \<Rightarrow> error + string" where
  "Phone v =
     (if \<not> validate_phone v then Inl (ValueError ''Invalid phone number'') else Inr v)"

text \<open>
  \<^verbatim>\<open>
  class Birthday(Field):
      def __init__(self, value):
          try:
              datetime.strptime(value, "%d.%m.%Y")
          except ValueError:
              raise ValueError("Invalid date format")
          super().__init__(value)
  \<close>
\<close>

definition Birthday :: "string \<Rightarrow> error + string" where
  "Birthday v =
     (case strptime v of
        Inl e \<Rightarrow> Inl (ValueError ''Invalid date format'')
      | Inr d \<Rightarrow> Inr v)"

section \<open>Record\<close>

text \<open>
  A contact: its name, the values of its phones in order, and the value of its birthday
  if it has one. A method that changes the object returns the record after the call
  beside its result, also when it raises: what the call did before the exception stays
  done.
  \<^verbatim>\<open>
  class Record:
      def __init__(self, name, phone, birthday=None):
          self.name = Name(name)
          self.phones = [Phone(phone)]
          self.birthday = Birthday(birthday) if birthday else None
  \<close>
\<close>

record Record =
  name :: string
  phones :: "string list"
  birthday :: "string option"

definition new_Record :: "string \<Rightarrow> string \<Rightarrow> string option \<Rightarrow> error + Record" where
  "new_Record n phone b =
     (case Phone phone of
        Inl e \<Rightarrow> Inl e
      | Inr p \<Rightarrow>
          (case b of
             None \<Rightarrow> Inr \<lparr>name = n, phones = [p], birthday = None\<rparr>
           | Some s \<Rightarrow>
               if s = [] then Inr \<lparr>name = n, phones = [p], birthday = None\<rparr>
               else case Birthday s of
                      Inl e \<Rightarrow> Inl e
                    | Inr v \<Rightarrow> Inr \<lparr>name = n, phones = [p], birthday = Some v\<rparr>))"

text \<open>
  \<^verbatim>\<open>
      def add_phone(self, phone):
          if Phone.validate_phone(phone):
              new_phone = Phone(phone)
              self.phones.append(new_phone)
              return new_phone
          else:
              raise ValueError("Invalid phone number")
  \<close>
\<close>

definition add_phone :: "Record \<Rightarrow> string \<Rightarrow> Record \<times> (error + string)" where
  "add_phone r phone =
     (if validate_phone phone
      then (case Phone phone of
              Inl e \<Rightarrow> (r, Inl e)
            | Inr new_phone \<Rightarrow> (r\<lparr>phones := phones r @ [new_phone]\<rparr>, Inr new_phone))
      else (r, Inl (ValueError ''Invalid phone number'')))"

text \<open>
  \<^verbatim>\<open>
      def find_phone(self, phone):
          for p in self.phones:
              if p.value == phone:
                  return p
          return None
  \<close>
  The phone object found is given by its place in the list.
\<close>

fun first_index :: "string \<Rightarrow> string list \<Rightarrow> nat option" where
  "first_index v [] = None"
| "first_index v (p # ps) =
     (if p = v then Some 0 else map_option Suc (first_index v ps))"

definition find_phone :: "Record \<Rightarrow> string \<Rightarrow> nat option" where
  "find_phone r phone = first_index phone (phones r)"

text \<open>
  \<^verbatim>\<open>
      def remove_phone(self, phone):
          del_phone = self.find_phone(phone)
          if del_phone:
              self.phones.remove(del_phone)
          return del_phone
  \<close>
  A phone object is always true, and \<open>list.remove\<close> takes out the object found.
\<close>

definition remove_phone :: "Record \<Rightarrow> string \<Rightarrow> Record \<times> string option" where
  "remove_phone r phone =
     (case find_phone r phone of
        None \<Rightarrow> (r, None)
      | Some i \<Rightarrow>
          (r\<lparr>phones := take i (phones r) @ drop (Suc i) (phones r)\<rparr>, Some (phones r ! i)))"

text \<open>
  \<^verbatim>\<open>
      def edit_phone(self, old_phone, new_phone):
          if len(new_phone) != 10:
             raise ValueError("Invalid phone number: must be 10 digits.")

          phone = self.find_phone(old_phone)
          if phone:
              phone.value = new_phone(Phone)
          else:
              raise ValueError("Phone number not found")
  \<close>
  \<open>new_phone\<close> is a string, and calling a string raises TypeError before anything is
  assigned.
\<close>

definition edit_phone :: "Record \<Rightarrow> string \<Rightarrow> string \<Rightarrow> Record \<times> (error + unit)" where
  "edit_phone r old_phone new_phone =
     (if length new_phone \<noteq> 10
      then (r, Inl (ValueError ''Invalid phone number: must be 10 digits.''))
      else case find_phone r old_phone of
             Some i \<Rightarrow> (r, Inl (TypeError ''str object is not callable''))
           | None \<Rightarrow> (r, Inl (ValueError ''Phone number not found'')))"

text \<open>
  \<^verbatim>\<open>
      def edit_birthday(self, new_birthday):
          self.birthday = Birthday(new_birthday)
  \<close>
\<close>

definition edit_birthday :: "Record \<Rightarrow> string \<Rightarrow> Record \<times> (error + unit)" where
  "edit_birthday r new_birthday =
     (case Birthday new_birthday of
        Inl e \<Rightarrow> (r, Inl e)
      | Inr v \<Rightarrow> (r\<lparr>birthday := Some v\<rparr>, Inr ()))"

text \<open>
  \<^verbatim>\<open>
      def __str__(self):
          phones = "; ".join(str(p.value) for p in self.phones)
          birthday_str = str(self.birthday) if self.birthday else "No birthday set"
          return f"Contact name: {self.name}, phones: {phones}, birthday: {birthday_str}"
  \<close>
\<close>

definition str_Record :: "Record \<Rightarrow> string" where
  "str_Record r =
     ''Contact name: '' @ name r @ '', phones: '' @ join ''; '' (phones r) @
     '', birthday: '' @ (case birthday r of None \<Rightarrow> ''No birthday set'' | Some b \<Rightarrow> b)"

section \<open>AddressBook\<close>

text \<open>
  The book is a dictionary from names to records. A Python dictionary keeps its keys in
  the order they were first stored, and \<open>values()\<close> follows it: the book is the list
  of its entries in that order, no key twice.
  \<^verbatim>\<open>
  class AddressBook(UserDict):
      def add_record(self, record):
          self.data[record.name.value] = record
      def find(self, name):
          return self.data.get(name)
  \<close>
\<close>

type_synonym AddressBook = "(string \<times> Record) list"

fun dict_set :: "AddressBook \<Rightarrow> string \<Rightarrow> Record \<Rightarrow> AddressBook" where
  "dict_set [] k v = [(k, v)]"
| "dict_set ((k', v') # es) k v =
     (if k' = k then (k, v) # es else (k', v') # dict_set es k v)"

definition add_record :: "AddressBook \<Rightarrow> Record \<Rightarrow> AddressBook" where
  "add_record book r = dict_set book (name r) r"

definition find_record :: "AddressBook \<Rightarrow> string \<Rightarrow> Record option" where
  "find_record book n = map_of book n"

text \<open>
  \<^verbatim>\<open>
      def __str__(self):
          if not self.data:
              return "No contacts found."
          return "\n".join([str(record) for record in self.data.values()])
  \<close>
\<close>

definition str_AddressBook :: "AddressBook \<Rightarrow> string" where
  "str_AddressBook book =
     (if book = [] then ''No contacts found.''
      else join [CHR 0x0A] (map (\<lambda>(k, r). str_Record r) book))"

text \<open>
  \<^verbatim>\<open>
      def find_next_weekday(self, start_date, weekday):
          days_ahead = weekday - start_date.weekday()
          if days_ahead <= 0:
              days_ahead += 7
          return start_date + timedelta(days=days_ahead)

      def adjust_for_weekend(self, birthday):
          if birthday.weekday() >= 4:
              return self.find_next_weekday(birthday, 0)
          return birthday
  \<close>
  The only caller passes the weekday 0; with a weekday from 0 on, \<open>days_ahead\<close> is
  positive when it is added.
\<close>

definition find_next_weekday :: "date \<Rightarrow> nat \<Rightarrow> error + date" where
  "find_next_weekday start_date wd =
     (let days_ahead = int wd - int (weekday start_date);
          days_ahead = (if days_ahead \<le> 0 then days_ahead + 7 else days_ahead)
      in add_days start_date (nat days_ahead))"

definition adjust_for_weekend :: "date \<Rightarrow> error + date" where
  "adjust_for_weekend b =
     (if weekday b \<ge> 4 then find_next_weekday b 0 else Inr b)"

text \<open>
  \<^verbatim>\<open>
      def get_upcoming_birthdays(self, days=7):
       today = datetime.now().date()
       upcoming_birthdays = []
       for record in self.data.values():
           if record.birthday:
               birth_date = datetime.strptime(record.birthday.value, "%d.%m.%Y").date().replace(year=today.year)
               if birth_date < today:
                   birth_date = birth_date.replace(year=today.year + 1)
               adjusted_birthday = self.adjust_for_weekend(birth_date)
               if 0 <= (adjusted_birthday - today).days <= days:
                   upcoming_birthdays.append({"name": record.name.value, "birthday": adjusted_birthday})
       return upcoming_birthdays
  \<close>
  The date the clock gives is the argument \<open>today\<close>. \<open>next_birthday\<close> is the body of
  the loop up to the adjusted date; the loop carries the list built so far.
\<close>

definition next_birthday :: "date \<Rightarrow> string \<Rightarrow> error + date" where
  "next_birthday today v =
     (case strptime v of
        Inl e \<Rightarrow> Inl e
      | Inr parsed \<Rightarrow>
          (case replace_year parsed (year today) of
             Inl e \<Rightarrow> Inl e
           | Inr birth_date \<Rightarrow>
               (case (if date_less birth_date today
                      then replace_year birth_date (year today + 1)
                      else Inr birth_date) of
                  Inl e \<Rightarrow> Inl e
                | Inr birth_date' \<Rightarrow> adjust_for_weekend birth_date')))"

fun upcoming_loop ::
  "date \<Rightarrow> int \<Rightarrow> (string \<times> date) list \<Rightarrow> Record list \<Rightarrow> error + (string \<times> date) list" where
  "upcoming_loop today days acc [] = Inr acc"
| "upcoming_loop today days acc (r # rs) =
     (case birthday r of
        None \<Rightarrow> upcoming_loop today days acc rs
      | Some v \<Rightarrow>
          (case next_birthday today v of
             Inl e \<Rightarrow> Inl e
           | Inr adjusted_birthday \<Rightarrow>
               if 0 \<le> days_between adjusted_birthday today \<and>
                  days_between adjusted_birthday today \<le> days
               then upcoming_loop today days (acc @ [(name r, adjusted_birthday)]) rs
               else upcoming_loop today days acc rs))"

definition get_upcoming_birthdays ::
  "AddressBook \<Rightarrow> int \<Rightarrow> date \<Rightarrow> error + (string \<times> date) list" where
  "get_upcoming_birthdays book days today = upcoming_loop today days [] (map snd book)"

section \<open>ContactApp\<close>

text \<open>
  The state of the application is its book. A command handler is given the book and the
  arguments and gives back the book as it leaves it, the texts it passed to the view
  (one for each call of \<open>print\<close>), and its result: the exception it raised, or whether
  it returned \<open>"exit"\<close>. The handlers are the methods of \<open>ContactApp\<close>; none of them is
  wrapped by \<open>input_error\<close>.

  A record is an object the book refers to, so a handler that changes the record it
  found changes the book: \<open>put_record\<close> stores the record back under its key.
\<close>

type_synonym outcome = "AddressBook \<times> string list \<times> (error + bool)"

definition put_record :: "AddressBook \<Rightarrow> string \<Rightarrow> Record \<Rightarrow> AddressBook" where
  "put_record book k r = map (\<lambda>(k', r'). if k' = k then (k', r) else (k', r')) book"

text \<open>\<open>name, phone = args\<close> raises ValueError unless \<open>args\<close> has two elements.\<close>

definition unpack_error :: "string list \<Rightarrow> error" where
  "unpack_error args =
     (if length args < 2 then ValueError ''not enough values to unpack (expected 2)''
      else ValueError ''too many values to unpack (expected 2)'')"

definition hello :: "AddressBook \<Rightarrow> string list \<Rightarrow> outcome" where
  "hello book args = (book, [''How can I help you?''], Inr False)"

text \<open>
  \<^verbatim>\<open>
      def add_contact(self, args):
          name, phone = args
          record = self.book.find(name)
          if record:
              record.add_phone(phone)
              self.view.show_message(f"Phone added.")
          else:
              if len(phone) == 10:
                  self.book.add_record(Record(name, phone))
                  self.view.show_message(f"Contact added.")
              else:
                  self.view.show_message("Invalid phone number")
  \<close>
\<close>

definition add_contact :: "AddressBook \<Rightarrow> string list \<Rightarrow> outcome" where
  "add_contact book args =
     (case args of
        [n, phone] \<Rightarrow>
          (case find_record book n of
             Some record \<Rightarrow>
               (case add_phone record phone of
                  (record', Inl e) \<Rightarrow> (put_record book n record', [], Inl e)
                | (record', Inr p) \<Rightarrow> (put_record book n record', [''Phone added.''], Inr False))
           | None \<Rightarrow>
               if length phone = 10
               then (case new_Record n phone None of
                       Inl e \<Rightarrow> (book, [], Inl e)
                     | Inr r \<Rightarrow> (add_record book r, [''Contact added.''], Inr False))
               else (book, [''Invalid phone number''], Inr False))
      | _ \<Rightarrow> (book, [], Inl (unpack_error args)))"

text \<open>
  \<^verbatim>\<open>
      def change_contact(self, args):
          name, phone = args
          record = self.book.find(name)
          if record:
              record.edit_phone(record.phones[0].value, phone)
              self.view.show_message('Contact updated.')
          else:
              self.view.show_message('Contact not found.')
  \<close>
\<close>

definition change_contact :: "AddressBook \<Rightarrow> string list \<Rightarrow> outcome" where
  "change_contact book args =
     (case args of
        [n, phone] \<Rightarrow>
          (case find_record book n of
             Some record \<Rightarrow>
               (case phones record of
                  [] \<Rightarrow> (book, [], Inl (IndexError ''list index out of range''))
                | p0 # _ \<Rightarrow>
                    (case edit_phone record p0 phone of
                       (record', Inl e) \<Rightarrow> (put_record book n record', [], Inl e)
                     | (record', Inr u) \<Rightarrow>
                         (put_record book n record', [''Contact updated.''], Inr False)))
           | None \<Rightarrow> (book, [''Contact not found.''], Inr False))
      | _ \<Rightarrow> (book, [], Inl (unpack_error args)))"

text \<open>
  \<^verbatim>\<open>
      def show_phone(self, args):
          name = args[0]
          record = self.book.find(name)
          if record:
              self.view.show_message(f"Phone number for {name}: {record.phones[0].value}")
          else:
              self.view.show_message(f"Contact {name} not found.")
  \<close>
\<close>

definition show_phone :: "AddressBook \<Rightarrow> string list \<Rightarrow> outcome" where
  "show_phone book args =
     (case args of
        [] \<Rightarrow> (book, [], Inl (IndexError ''list index out of range''))
      | n # _ \<Rightarrow>
          (case find_record book n of
             Some record \<Rightarrow>
               (case phones record of
                  [] \<Rightarrow> (book, [], Inl (IndexError ''list index out of range''))
                | p0 # _ \<Rightarrow> (book, [''Phone number for '' @ n @ '': '' @ p0], Inr False))
           | None \<Rightarrow> (book, [''Contact '' @ n @ '' not found.''], Inr False)))"

text \<open>
  \<^verbatim>\<open>
      def show_all_contacts(self, args):
          self.view.show_contacts(str(self.book))
  \<close>
\<close>

definition show_all_contacts :: "AddressBook \<Rightarrow> string list \<Rightarrow> outcome" where
  "show_all_contacts book args = (book, [str_AddressBook book], Inr False)"

text \<open>
  \<^verbatim>\<open>
      def add_birthday(self, args):
          name, birthday = args
          record = self.book.find(name)
          if record:
              record.edit_birthday(birthday)
              self.view.show_message(f"Birthday for {name} added.")
          else:
              self.view.show_message(f"Contact {name} not found.")
  \<close>
\<close>

definition add_birthday :: "AddressBook \<Rightarrow> string list \<Rightarrow> outcome" where
  "add_birthday book args =
     (case args of
        [n, b] \<Rightarrow>
          (case find_record book n of
             Some record \<Rightarrow>
               (case edit_birthday record b of
                  (record', Inl e) \<Rightarrow> (put_record book n record', [], Inl e)
                | (record', Inr u) \<Rightarrow>
                    (put_record book n record', [''Birthday for '' @ n @ '' added.''], Inr False))
           | None \<Rightarrow> (book, [''Contact '' @ n @ '' not found.''], Inr False))
      | _ \<Rightarrow> (book, [], Inl (unpack_error args)))"

text \<open>
  \<^verbatim>\<open>
      def show_birthday(self, args):
          name = args[0]
          record = self.book.find(name)
          if record:
              if record.birthday:
                  self.view.show_message(f"Birthday for {name}: {record.birthday.value}")
              else:
                  self.view.show_message(f"Birthday for {name} not added.")
          else:
              self.view.show_message(f"Contact {name} not found.")
  \<close>
\<close>

definition show_birthday :: "AddressBook \<Rightarrow> string list \<Rightarrow> outcome" where
  "show_birthday book args =
     (case args of
        [] \<Rightarrow> (book, [], Inl (IndexError ''list index out of range''))
      | n # _ \<Rightarrow>
          (case find_record book n of
             Some record \<Rightarrow>
               (case birthday record of
                  Some b \<Rightarrow> (book, [''Birthday for '' @ n @ '': '' @ b], Inr False)
                | None \<Rightarrow> (book, [''Birthday for '' @ n @ '' not added.''], Inr False))
           | None \<Rightarrow> (book, [''Contact '' @ n @ '' not found.''], Inr False)))"

text \<open>
  \<^verbatim>\<open>
      def show_birthdays(self, args):
          upcoming_birthdays = self.book.get_upcoming_birthdays()
          if upcoming_birthdays:
              self.view.show_contacts(
                  [f"Greeting for {user['name']} for {user['birthday']}" for user in upcoming_birthdays]
              )
          else:
              self.view.show_message("Users not found.")
  \<close>
  A date is printed as year-month-day, four digits and two and two; the view prints
  the greetings one by one.
\<close>

definition str_date :: "date \<Rightarrow> string" where
  "str_date d =
     zero_padded 4 (year d) @ ''-'' @ zero_padded 2 (month d) @ ''-'' @ zero_padded 2 (day d)"

definition show_birthdays :: "date \<Rightarrow> AddressBook \<Rightarrow> string list \<Rightarrow> outcome" where
  "show_birthdays today book args =
     (case get_upcoming_birthdays book 7 today of
        Inl e \<Rightarrow> (book, [], Inl e)
      | Inr upcoming_birthdays \<Rightarrow>
          if upcoming_birthdays \<noteq> []
          then (book,
                map (\<lambda>(n, d). ''Greeting for '' @ n @ '' for '' @ str_date d) upcoming_birthdays,
                Inr False)
          else (book, [''Users not found.''], Inr False))"

text \<open>
  \<^verbatim>\<open>
      def exit(self, args):
          save_data(self.book)
          self.view.show_message("Good bye!")
          return "exit"
  \<close>
  Saving writes the book to a file and leaves the state alone; the file system is not
  part of the model.
\<close>

definition exit_app :: "AddressBook \<Rightarrow> string list \<Rightarrow> outcome" where
  "exit_app book args = (book, [''Good bye!''], Inr True)"

text \<open>
  \<^verbatim>\<open>
      @input_error
      def parse_input(self, user_input):
          cmd, *args = user_input.split(' ', 1)
          if args:
              args = args[0].split()
          return cmd.strip().lower(), args
  \<close>
  No statement of the body raises, so the wrapper returns what the body returns.
\<close>

definition parse_input :: "string \<Rightarrow> string \<times> string list" where
  "parse_input user_input =
     (case split_space1 user_input of
        [] \<Rightarrow> ([], [])
      | cmd # args \<Rightarrow>
          (lower (strip cmd), (case args of [] \<Rightarrow> [] | a # _ \<Rightarrow> split_ws a)))"

text \<open>
  \<^verbatim>\<open>
          self.commands = {
              "hello": self.hello,
              "add": self.add_contact,
              "change": self.change_contact,
              "phone": self.show_phone,
              "all": self.show_all_contacts,
              "add-birthday": self.add_birthday,
              "show-birthday": self.show_birthday,
              "birthdays": self.show_birthdays,
              "exit": self.exit,
              "close": self.exit,
          }
  \<close>
\<close>

definition commands :: "date \<Rightarrow> (string \<times> (AddressBook \<Rightarrow> string list \<Rightarrow> outcome)) list" where
  "commands today =
     [(''hello'', hello),
      (''add'', add_contact),
      (''change'', change_contact),
      (''phone'', show_phone),
      (''all'', show_all_contacts),
      (''add-birthday'', add_birthday),
      (''show-birthday'', show_birthday),
      (''birthdays'', show_birthdays today),
      (''exit'', exit_app),
      (''close'', exit_app)]"

text \<open>
  \<^verbatim>\<open>
      def run(self):
          self.book = load_data()
          self.view.show_message("Welcome to the assistant bot!")
          while True:
              user_input = self.view.get_input("Enter a command: ")
              command, args = self.parse_input(user_input)
              if command in self.commands:
                  result = self.commands[command](args)
                  if result == "exit":
                      break
              else:
                  self.view.show_message("Invalid command.")
  \<close>
  \<open>process_line\<close> is one turn of the loop after the line is read. The loop is run on
  the lines the view hands over, each with the date of the clock at that time: it ends
  \<open>Terminated\<close> after an exit command, \<open>Crashed\<close> when an exception leaves the loop
  (nothing in \<open>run\<close> catches one), and is still \<open>Running\<close>, waiting for input, when the
  lines are used up. The book \<open>load_data\<close> returns is the argument of \<open>run\<close>.
\<close>

definition process_line :: "date \<Rightarrow> AddressBook \<Rightarrow> string \<Rightarrow> outcome" where
  "process_line today book user_input =
     (case parse_input user_input of
        (command, args) \<Rightarrow>
          (case map_of (commands today) command of
             Some handler \<Rightarrow> handler book args
           | None \<Rightarrow> (book, [''Invalid command.''], Inr False)))"

datatype session = Running | Terminated | Crashed error

fun run_loop :: "AddressBook \<Rightarrow> (date \<times> string) list \<Rightarrow> AddressBook \<times> string list \<times> session" where
  "run_loop book [] = (book, [], Running)"
| "run_loop book ((today, user_input) # rest) =
     (case process_line today book user_input of
        (book', out, Inl e) \<Rightarrow> (book', out, Crashed e)
      | (book', out, Inr True) \<Rightarrow> (book', out, Terminated)
      | (book', out, Inr False) \<Rightarrow>
          (case run_loop book' rest of
             (book'', out', s) \<Rightarrow> (book'', out @ out', s)))"

definition run :: "AddressBook \<Rightarrow> (date \<times> string) list \<Rightarrow> AddressBook \<times> string list \<times> session" where
  "run loaded inputs =
     (case run_loop loaded inputs of
        (book, out, s) \<Rightarrow> (book, ''Welcome to the assistant bot!'' # out, s))"

section \<open>Properties\<close>

subsection \<open>Characters\<close>



subsection \<open>Phone validation\<close>






subsection \<open>Record operations\<close>



lemma first_index_None: "first_index v ps = None \<longleftrightarrow> v \<notin> set ps"
  by (induction ps) auto

lemma first_index_Some:
  "first_index v ps = Some i \<Longrightarrow> i < length ps \<and> ps ! i = v \<and> v \<notin> set (take i ps)"
proof (induction ps arbitrary: i)
  case Nil
  then show ?case by simp
next
  case (Cons p ps)
  show ?case
  proof (cases "p = v")
    case True
    with Cons.prems show ?thesis by simp
  next
    case False
    with Cons.prems obtain j where j: "first_index v ps = Some j" "i = Suc j"
      by auto
    from Cons.IH [OF j(1)] False j(2) show ?thesis by simp
  qed
qed

text \<open>
  Claim C1, on the code. \<open>edit_phone\<close> raises ValueError for the length when
  \<open>new_phone\<close> is not ten characters long, whatever the characters are; otherwise
  ValueError "Phone number not found" when \<open>old_phone\<close> is not a stored value. In the
  remaining case, where the claim has the stored value replaced, the call raises
  TypeError and the record is unchanged: the source calls the string \<open>new_phone\<close>.
\<close>

theorem edit_phone_outcomes:
  "(length new_phone \<noteq> 10 \<longrightarrow>
      edit_phone r old_phone new_phone =
        (r, Inl (ValueError ''Invalid phone number: must be 10 digits.'')))
   \<and> (length new_phone = 10 \<and> old_phone \<notin> set (phones r) \<longrightarrow>
      edit_phone r old_phone new_phone = (r, Inl (ValueError ''Phone number not found'')))
   \<and> (length new_phone = 10 \<and> old_phone \<in> set (phones r) \<longrightarrow>
      edit_phone r old_phone new_phone = (r, Inl (TypeError ''str object is not callable'')))"
proof -
  have "old_phone \<in> set (phones r) \<Longrightarrow> \<exists>i. find_phone r old_phone = Some i"
    using first_index_None [of old_phone "phones r"] by (auto simp: find_phone_def)
  moreover have "old_phone \<notin> set (phones r) \<Longrightarrow> find_phone r old_phone = None"
    by (simp add: find_phone_def first_index_None)
  ultimately show ?thesis
    by (auto simp: edit_phone_def)
qed

text \<open>The failing call: a stored phone and a new value of ten digits.\<close>

theorem edit_phone_raises_TypeError:
  "edit_phone \<lparr>name = ''Ann'', phones = [''1234567890''], birthday = None\<rparr>
      ''1234567890'' ''0987654321''
   = (\<lparr>name = ''Ann'', phones = [''1234567890''], birthday = None\<rparr>,
      Inl (TypeError ''str object is not callable''))"
  using edit_phone_outcomes [of "''0987654321''"
      "\<lparr>name = ''Ann'', phones = [''1234567890''], birthday = None\<rparr>" "''1234567890''"]
  by simp

lemma new_Record_phones:
  "new_Record n p b = Inr r \<Longrightarrow> phones r = [p] \<and> validate_phone p"
  by (auto simp: new_Record_def Phone_def split: if_splits option.splits sum.splits)

lemma add_phone_phones:
  "phones (fst (add_phone r p)) = (if validate_phone p then phones r @ [p] else phones r)"
  by (simp add: add_phone_def Phone_def)

lemma edit_phone_unchanged: "fst (edit_phone r old_phone new_phone) = r"
  by (simp add: edit_phone_def split: option.splits)

lemma edit_birthday_phones: "phones (fst (edit_birthday r b)) = phones r"
  by (simp add: edit_birthday_def split: sum.splits)

lemma remove_phone_subset: "set (phones (fst (remove_phone r p))) \<subseteq> set (phones r)"
proof (cases "find_phone r p")
  case None
  then show ?thesis by (simp add: remove_phone_def)
next
  case (Some i)
  have "set (take i (phones r)) \<subseteq> set (phones r)" by (rule set_take_subset)
  moreover have "set (drop (Suc i) (phones r)) \<subseteq> set (phones r)" by (rule set_drop_subset)
  ultimately show ?thesis using Some by (simp add: remove_phone_def)
qed

text \<open>
  Claim C5, as amended. A record that was created holds one phone, and
  \<open>validate_phone\<close> accepts it. \<open>add_phone\<close>, \<open>edit_phone\<close> and \<open>edit_birthday\<close> keep
  the invariant that the record holds at least one phone and \<open>validate_phone\<close>
  accepts every stored value (ten characters, each a digit as \<open>str.isdigit\<close> reads
  it). \<open>remove_phone\<close> keeps the second half only: every stored value stays valid, and
  the list may become empty.
\<close>

theorem record_phones_invariant:
  "(new_Record n p b = Inr r0 \<longrightarrow> phones r0 = [p] \<and> validate_phone p)
   \<and> (phones r \<noteq> [] \<and> list_all validate_phone (phones r) \<longrightarrow>
        phones (fst (add_phone r q)) \<noteq> [] \<and> list_all validate_phone (phones (fst (add_phone r q)))
      \<and> phones (fst (edit_phone r old_phone new_phone)) \<noteq> []
      \<and> list_all validate_phone (phones (fst (edit_phone r old_phone new_phone)))
      \<and> phones (fst (edit_birthday r v)) \<noteq> []
      \<and> list_all validate_phone (phones (fst (edit_birthday r v))))
   \<and> (list_all validate_phone (phones r) \<longrightarrow>
        list_all validate_phone (phones (fst (remove_phone r q))))"
proof (intro conjI impI)
  assume "new_Record n p b = Inr r0"
  then show "phones r0 = [p]" "validate_phone p"
    using new_Record_phones by blast+
next
  assume "list_all validate_phone (phones r)"
  then show "list_all validate_phone (phones (fst (remove_phone r q)))"
    using remove_phone_subset [of r q] unfolding list_all_iff by blast
qed (simp_all add: add_phone_phones edit_phone_unchanged edit_birthday_phones)

theorem record_phones_invariant_witness:
  "new_Record ''Ann'' ''1234567890'' None
     = Inr \<lparr>name = ''Ann'', phones = [''1234567890''], birthday = None\<rparr>
   \<and> phones (fst (add_phone \<lparr>name = ''Ann'', phones = [''1234567890''], birthday = None\<rparr>
        ''0987654321'')) \<noteq> []
   \<and> list_all validate_phone
        (phones (fst (remove_phone
          \<lparr>name = ''Ann'', phones = [''1234567890'', ''0987654321''], birthday = None\<rparr>
          ''1234567890'')))"
  using record_phones_invariant [of "''Ann''" "''1234567890''" None
      "\<lparr>name = ''Ann'', phones = [''1234567890''], birthday = None\<rparr>"
      "\<lparr>name = ''Ann'', phones = [''1234567890''], birthday = None\<rparr>" "''0987654321''"]
    record_phones_invariant [of "''Ann''" "''1234567890''" None
      "\<lparr>name = ''Ann'', phones = [''1234567890''], birthday = None\<rparr>"
      "\<lparr>name = ''Ann'', phones = [''1234567890'', ''0987654321''], birthday = None\<rparr>"
      "''1234567890''"]
  by (simp add: new_Record_def Phone_def validate_phone_def isdigit_def isdigit_char_def)

text \<open>
  The claim as stated fails: \<open>remove_phone\<close> takes the only phone of a new record, and
  a record is created with a phone of ten superscript digits, which are not decimal
  digits.
\<close>

theorem remove_last_phone:
  "new_Record ''Ann'' ''1234567890'' None
     = Inr \<lparr>name = ''Ann'', phones = [''1234567890''], birthday = None\<rparr>
   \<and> remove_phone \<lparr>name = ''Ann'', phones = [''1234567890''], birthday = None\<rparr> ''1234567890''
     = (\<lparr>name = ''Ann'', phones = [], birthday = None\<rparr>, Some ''1234567890'')
   \<and> new_Record ''Ann'' (replicate 10 (CHR 0xB2)) None
     = Inr \<lparr>name = ''Ann'', phones = [replicate 10 (CHR 0xB2)], birthday = None\<rparr>
   \<and> CHR 0xB2 \<notin> set ''0123456789''"
  by (simp add: new_Record_def Phone_def validate_phone_def isdigit_def isdigit_char_def
      remove_phone_def find_phone_def list_all_iff)

subsection \<open>The dispatcher on single commands\<close>

lemma parse_input_add_Ann:
  "parse_input ''add Ann 1234567890'' = (''add'', [''Ann'', ''1234567890''])"
  by code_simp

lemma validate_phone_1234567890: "validate_phone ''1234567890''"
  by (simp add: validate_phone_def isdigit_def isdigit_char_def)

text \<open>
  Claim C8. On the empty book the line \<open>add Ann 1234567890\<close> shows "Contact added."
  and leaves a book in which \<open>find("Ann")\<close> is a record whose only phone is
  1234567890; the same line once more shows "Phone added." and the record then has two
  phones.
\<close>

theorem add_Ann_twice:
  "process_line today [] ''add Ann 1234567890'' =
     ([(''Ann'', \<lparr>name = ''Ann'', phones = [''1234567890''], birthday = None\<rparr>)],
      [''Contact added.''], Inr False)
   \<and> find_record [(''Ann'', \<lparr>name = ''Ann'', phones = [''1234567890''], birthday = None\<rparr>)] ''Ann''
       = Some \<lparr>name = ''Ann'', phones = [''1234567890''], birthday = None\<rparr>
   \<and> process_line today'
       [(''Ann'', \<lparr>name = ''Ann'', phones = [''1234567890''], birthday = None\<rparr>)]
       ''add Ann 1234567890'' =
     ([(''Ann'', \<lparr>name = ''Ann'', phones = [''1234567890'', ''1234567890''], birthday = None\<rparr>)],
      [''Phone added.''], Inr False)
   \<and> map_option (\<lambda>r. length (phones r))
       (find_record
         [(''Ann'', \<lparr>name = ''Ann'', phones = [''1234567890'', ''1234567890''], birthday = None\<rparr>)]
         ''Ann'') = Some 2"
  by (simp add: process_line_def parse_input_add_Ann commands_def add_contact_def
      find_record_def new_Record_def add_phone_def Phone_def validate_phone_1234567890
      add_record_def put_record_def)

text \<open>
  Claim C9. A line whose command word is none of the ten keys of the command table
  shows "Invalid command." and leaves the book as it is.
\<close>

theorem unknown_command:
  assumes "fst (parse_input user_input) \<notin> set [''hello'', ''add'', ''change'', ''phone'', ''all'',
      ''add-birthday'', ''show-birthday'', ''birthdays'', ''exit'', ''close'']"
  shows "process_line today book user_input = (book, [''Invalid command.''], Inr False)"
proof -
  obtain command args where p: "parse_input user_input = (command, args)"
    by (cases "parse_input user_input")
  with assms have "map_of (commands today) command = None"
    by (simp add: commands_def)
  with p show ?thesis
    by (simp add: process_line_def)
qed

lemma parse_input_frobnicate: "parse_input ''frobnicate'' = (''frobnicate'', [])"
  by code_simp

theorem unknown_command_witness:
  "process_line \<lparr>year = 2024, month = 6, day = 3\<rparr>
     [(''Ann'', \<lparr>name = ''Ann'', phones = [''1234567890''], birthday = Some ''08.06.1990''\<rparr>)]
     ''frobnicate''
   = ([(''Ann'', \<lparr>name = ''Ann'', phones = [''1234567890''], birthday = Some ''08.06.1990''\<rparr>)],
      [''Invalid command.''], Inr False)"
  using unknown_command [of "''frobnicate''" "\<lparr>year = 2024, month = 6, day = 3\<rparr>"
     "[(''Ann'', \<lparr>name = ''Ann'', phones = [''1234567890''], birthday = Some ''08.06.1990''\<rparr>)]"]
  by (simp add: parse_input_frobnicate)

lemma parse_input_add_one: "parse_input ''add Ann'' = (''add'', [''Ann''])"
  by code_simp

text \<open>
  Claim C2, on the code. The handlers the loop calls are not wrapped, and the loop
  catches nothing: on the line \<open>add Ann\<close> the unpacking of the arguments raises
  ValueError and the session ends with it, whatever the book is and whatever lines
  follow.
\<close>

theorem add_without_phone_ends_session:
  "run_loop book ((today, ''add Ann'') # rest)
   = (book, [], Crashed (ValueError ''not enough values to unpack (expected 2)''))"
  by (simp add: process_line_def parse_input_add_one commands_def add_contact_def unpack_error_def)

end
